theory Spec2Isabelle
  imports Complex_Main "HOL-Library.AList"
begin

unbundle bit_operations_syntax

section \<open>Python strings\<close>

text \<open>
  A Python \<open>str\<close> is a sequence of Unicode code points; the repository's literals are
  Chinese, so a string is modelled as the list of its code points (written in hexadecimal:
  \<open>[0x5934, 0x75DB]\<close> is U+5934 U+75DB). \<open>py_in sub s\<close> is Python's \<open>sub in s\<close>
  on strings: \<open>sub\<close> occurs in \<open>s\<close> as a contiguous run (the empty string occurs in
  every string).
\<close>

type_synonym pystr = "int list"

fun startswith :: "'a list \<Rightarrow> 'a list \<Rightarrow> bool" where
  "startswith [] s = True"
| "startswith (p # ps) [] = False"
| "startswith (p # ps) (c # cs) = (p = c \<and> startswith ps cs)"

fun py_in :: "'a list \<Rightarrow> 'a list \<Rightarrow> bool" where
  "py_in sub [] = startswith sub []"
| "py_in sub (c # cs) = (startswith sub (c # cs) \<or> py_in sub cs)"

text \<open>Decimal rendering of an integer, as an f-string does it.\<close>

function str_nat :: "nat \<Rightarrow> pystr" where
  "str_nat n = (if n < 10 then [0x30 + int n] else str_nat (n div 10) @ [0x30 + int (n mod 10)])"
  by pat_completeness auto
termination
  by (relation "measure id") auto

definition str_int :: "int \<Rightarrow> pystr" where
  "str_int i = (if i < 0 then 0x2D # str_nat (nat (- i)) else str_nat (nat i))"

section \<open>The knowledge base as loaded from JSON\<close>

text \<open>
  A disease record is a JSON object read with \<open>dict.get\<close>: a key may be absent, which
  is \<open>None\<close> here. \<open>jd_id\<close> is the key U+75BE U+75C5 "ID", \<open>jd_name\<close> the key
  U+75BE U+75C5 U+540D U+79F0, \<open>jd_symptoms\<close> the key U+75C7 U+72B6 U+5217 U+8868
  (the empty list when absent). The normalizer adds \<open>symptom_id\<close> and
  \<open>normalized_name\<close> to a copy of a symptom object. A loaded database is the list under
  the key U+75BE U+75C5 U+5E93.
\<close>

record symptom_json =
  js_symptom_name :: "pystr option"
  js_specificity :: "bool option"
  js_symptom_id :: "pystr option"
  js_normalized_name :: "pystr option"

record disease_json =
  jd_id :: "pystr option"
  jd_name :: "pystr option"
  jd_symptoms :: "symptom_json list"

definition get_str :: "pystr option \<Rightarrow> pystr" where
  "get_str v = (case v of None \<Rightarrow> [] | Some s \<Rightarrow> s)"

section \<open>cotc\_agent\_final.py: data classes\<close>

text \<open>
  \<open>match_confidence\<close> and \<open>match_percentage\<close> are Python floats. The percentage is
  \<open>confirmed_count / total_count * 100\<close>; it is modelled by the exact rational. IEEE
  rounding is monotone and \<open>n / n * 100\<close> is exactly \<open>100.0\<close>, so the comparisons the
  code makes (\<open>>= 100.0\<close>, the sort order) agree with the exact ones for counts below
  \<open>2^53\<close>. In \<open>DiseaseMatchProgress\<close> the integer field \<open>confirmed_symptoms\<close> is named
  \<open>confirmed_count\<close> and the field \<open>lifestyle_factors\<close> is named
  \<open>progress_lifestyle_factors\<close>, since \<open>PatientProfile\<close> has fields of the same names.
\<close>

record SymptomMatch =
  symptom_name :: pystr
  is_confirmed :: bool
  confirmation_source :: string
  match_confidence :: rat

record DiseaseMatchProgress =
  disease_id :: pystr
  disease_name :: pystr
  total_symptoms :: nat
  confirmed_count :: nat
  match_percentage :: rat
  missing_symptoms :: "pystr list"
  progress_lifestyle_factors :: "pystr list"
  current_questions :: "pystr list"

record PatientProfile =
  patient_id :: pystr
  age :: int
  gender :: pystr
  medical_history :: "pystr list"
  confirmed_symptoms :: "SymptomMatch list"
  lifestyle_factors :: "(pystr \<times> pystr) list"
  conversation_history :: "pystr list"

section \<open>DiseaseMatcher\<close>

datatype io_error = FileNotFound | JSONDecodeError | OtherException

text \<open>
  \<open>load_disease_database\<close> takes the outcome of \<open>open\<close> and \<open>json.load\<close>: the parsed
  database, or the exception raised. The \<open>except Exception\<close> branch logs and returns the
  database with an empty disease list.
\<close>

definition load_disease_database :: "io_error + disease_json list \<Rightarrow> disease_json list" where
  "load_disease_database r = (case r of Inr db \<Rightarrow> db | Inl e \<Rightarrow> [])"

text \<open>
  \<open>append_bucket k v m\<close> is \<open>if k not in m: m[k] = []\<close> followed by
  \<open>m[k].append(v)\<close> on an insertion-ordered dict.
\<close>

fun append_bucket :: "'k \<Rightarrow> 'v \<Rightarrow> ('k \<times> 'v list) list \<Rightarrow> ('k \<times> 'v list) list" where
  "append_bucket k v [] = [(k, [v])]"
| "append_bucket k v ((k', vs) # m) =
     (if k' = k then (k', vs @ [v]) # m else (k', vs) # append_bucket k v m)"

type_synonym symptom_index = "(pystr \<times> (pystr \<times> pystr) list) list"

definition build_symptom_mapping :: "disease_json list \<Rightarrow> symptom_index" where
  "build_symptom_mapping db =
     fold (\<lambda>disease m.
             fold (\<lambda>symptom m'.
                     let sname = get_str (js_symptom_name symptom)
                     in if sname \<noteq> []
                        then append_bucket sname (get_str (jd_id disease), get_str (jd_name disease)) m'
                        else m')
                  (jd_symptoms disease) m)
          db []"

record DiseaseMatcher =
  disease_db :: "disease_json list"
  symptom_to_diseases :: symptom_index

definition DiseaseMatcher_init :: "io_error + disease_json list \<Rightarrow> DiseaseMatcher" where
  "DiseaseMatcher_init r =
     (let db = load_disease_database r
      in \<lparr>disease_db = db, symptom_to_diseases = build_symptom_mapping db\<rparr>)"

definition get_disease_symptoms :: "disease_json list \<Rightarrow> pystr \<Rightarrow> pystr list" where
  "get_disease_symptoms db did =
     (case find (\<lambda>disease. jd_id disease = Some did) db of
        None \<Rightarrow> []
      | Some disease \<Rightarrow> map (\<lambda>s. get_str (js_symptom_name s)) (jd_symptoms disease))"

text \<open>
  \<open>disease_scores\<close> maps a disease id to its name and the list of confirmed symptom
  names, in insertion order.
\<close>

type_synonym disease_scores = "(pystr \<times> (pystr \<times> pystr list)) list"

fun add_confirmed :: "pystr \<Rightarrow> pystr \<times> pystr \<Rightarrow> disease_scores \<Rightarrow> disease_scores" where
  "add_confirmed sn (did, dn) [] = [(did, (dn, [sn]))]"
| "add_confirmed sn (did, dn) ((i, (n, cs)) # rest) =
     (if i = did then (i, (n, cs @ [sn])) # rest
      else (i, (n, cs)) # add_confirmed sn (did, dn) rest)"

definition count_matches :: "symptom_index \<Rightarrow> SymptomMatch list \<Rightarrow> disease_scores" where
  "count_matches idx confirmed =
     fold (\<lambda>sm scores.
             if is_confirmed sm
             then (case map_of idx (symptom_name sm) of
                     None \<Rightarrow> scores
                   | Some infos \<Rightarrow> fold (add_confirmed (symptom_name sm)) infos scores)
             else scores)
          confirmed []"

definition progress_of :: "disease_json list \<Rightarrow> pystr \<times> pystr \<times> pystr list \<Rightarrow> DiseaseMatchProgress" where
  "progress_of db e =
     (case e of (did, dn, cs) \<Rightarrow>
        let all_symptoms = get_disease_symptoms db did;
            c = length cs;
            total_count = length all_symptoms
        in \<lparr>disease_id = did,
            disease_name = dn,
            total_symptoms = total_count,
            confirmed_count = c,
            match_percentage = (if total_count > 0 then of_nat c / of_nat total_count * 100 else 0),
            missing_symptoms = filter (\<lambda>s. s \<notin> set cs) all_symptoms,
            progress_lifestyle_factors = [],
            current_questions = []\<rparr>)"

text \<open>
  \<open>list.sort(key, reverse=True)\<close> is stable: entries of equal percentage keep their
  order. \<open>sort_key\<close> on the negated key is the same stable descending sort.
\<close>

definition find_potential_diseases :: "DiseaseMatcher \<Rightarrow> SymptomMatch list \<Rightarrow> DiseaseMatchProgress list" where
  "find_potential_diseases m confirmed =
     sort_key (\<lambda>p. - match_percentage p)
       (map (progress_of (disease_db m)) (count_matches (symptom_to_diseases m) confirmed))"

section \<open>COTCAgent\<close>

record COTCAgent =
  disease_matcher :: DiseaseMatcher
  current_analysis_step :: int
  max_verification_rounds :: int
  verification_round :: int
  current_disease_focus :: "DiseaseMatchProgress option"

definition COTCAgent_init :: "io_error + disease_json list \<Rightarrow> COTCAgent" where
  "COTCAgent_init r =
     \<lparr>disease_matcher = DiseaseMatcher_init r,
      current_analysis_step = 0,
      max_verification_rounds = 5,
      verification_round = 0,
      current_disease_focus = None\<rparr>"

subsection \<open>Responses\<close>

record diagnosis_info =
  dg_disease_name :: pystr
  dg_confidence :: string
  dg_match_percentage :: rat
  dg_confirmed_symptoms :: "pystr list"
  dg_reasoning :: pystr

record focus_disease_info =
  fd_disease_id :: pystr
  fd_disease_name :: pystr
  fd_match_percentage :: rat
  fd_confirmed_symptoms :: "pystr list"
  fd_missing_symptoms :: "pystr list"
  fd_total_symptoms :: nat

record match_visualization =
  mv_disease_name :: pystr
  mv_current :: nat
  mv_total :: nat
  mv_percentage :: rat
  mv_confirmed :: "pystr list"
  mv_missing :: "pystr list"
  mv_total_needed :: nat
  mv_next_steps :: pystr

text \<open>
  The three dictionaries a turn returns, by their \<open>status\<close>. The arguments are, in
  order: \<open>analysis_step\<close>, \<open>diagnosis\<close>, \<open>recommendations\<close>, \<open>lifestyle_advice\<close>;
  \<open>analysis_step\<close>, \<open>focus_disease\<close>, \<open>verification_questions\<close>,
  \<open>match_visualization\<close>; \<open>analysis_step\<close>, \<open>message\<close>, \<open>suggested_questions\<close>.
\<close>

datatype response =
    Diagnosis_complete int diagnosis_info "pystr list" "pystr list"
  | Verification_needed int focus_disease_info "pystr list" match_visualization
  | No_matches int pystr "pystr list"


subsection \<open>Symptom extraction\<close>

text \<open>The keyword table of \<open>extract_and_confirm_symptoms\<close>, in the order of the dict literal.\<close>

definition symptom_mapping :: "(pystr \<times> pystr list) list" where
  "symptom_mapping =
    [([0x5934, 0x75BC], [[0x5934, 0x75DB]]),
     ([0x5934, 0x75DB], [[0x5934, 0x75DB]]),
     ([0x80F8, 0x95F7], [[0x80F8, 0x95F7]]),
     ([0x80F8, 0x75DB], [[0x80F8, 0x75DB]]),
     ([0x811A, 0x540E, 0x8DDF, 0x75BC], [[0x8DB3, 0x8DDF, 0x75DB]]),
     ([0x811A, 0x75BC], [[0x8DB3, 0x75DB]]),
     ([0x8179, 0x75DB], [[0x8179, 0x75DB]]),
     ([0x809A, 0x5B50, 0x75BC], [[0x8179, 0x75DB]]),
     ([0x53D1, 0x70ED], [[0x53D1, 0x70ED]]),
     ([0x53D1, 0x70E7], [[0x53D1, 0x70ED]]),
     ([0x6076, 0x5FC3], [[0x6076, 0x5FC3]]),
     ([0x5455, 0x5410], [[0x5455, 0x5410]]),
     ([0x5934, 0x6655], [[0x5934, 0x6655]]),
     ([0x5931, 0x7720], [[0x5931, 0x7720]]),
     ([0x54B3, 0x55FD], [[0x54B3, 0x55FD]]),
     ([0x547C, 0x5438, 0x56F0, 0x96BE], [[0x547C, 0x5438, 0x56F0, 0x96BE]]),
     ([0x5FC3, 0x60B8], [[0x5FC3, 0x60B8]]),
     ([0x8179, 0x6CFB], [[0x8179, 0x6CFB]]),
     ([0x4FBF, 0x79D8], [[0x4FBF, 0x79D8]])]"

definition new_match :: "pystr \<Rightarrow> string \<Rightarrow> SymptomMatch" where
  "new_match n src =
     \<lparr>symptom_name = n, is_confirmed = True, confirmation_source = src, match_confidence = 1\<rparr>"

text \<open>
  The membership test reads \<open>patient_profile.confirmed_symptoms\<close>, which the loop does
  not change: the matches found are collected in a local list and appended by the caller.
\<close>

definition extract_and_confirm_symptoms :: "pystr \<Rightarrow> PatientProfile \<Rightarrow> SymptomMatch list" where
  "extract_and_confirm_symptoms user_input patient_profile =
     concat (map (\<lambda>(user_symptom, medical_symptoms).
                    if py_in user_symptom user_input
                    then map (\<lambda>ms. new_match ms ''user_input'')
                           (filter (\<lambda>ms. \<not> (\<exists>s \<in> set (confirmed_symptoms patient_profile).
                                                  symptom_name s = ms))
                                   medical_symptoms)
                    else [])
                 symptom_mapping)"

subsection \<open>Diagnosis and questions\<close>

definition confirmed_names :: "PatientProfile \<Rightarrow> pystr list" where
  "confirmed_names patient_profile =
     map symptom_name (filter is_confirmed (confirmed_symptoms patient_profile))"

definition generate_lifestyle_advice :: "(pystr \<times> pystr) list \<Rightarrow> pystr list" where
  "generate_lifestyle_advice lf =
     (if [0x538B, 0x529B] \<in> fst ` set lf
      then [[0x5EFA, 0x8BAE, 0x9002, 0x5F53, 0x51CF, 0x538B, 0xFF0C, 0x4FDD, 0x6301, 0x5FC3, 0x60C5, 0x6109, 0x5FEB]]
      else []) @
     (if [0x996E, 0x98DF] \<in> fst ` set lf
      then [[0x6CE8, 0x610F, 0x996E, 0x98DF, 0x89C4, 0x5F8B, 0xFF0C, 0x907F, 0x514D, 0x523A, 0x6FC0, 0x6027, 0x98DF, 0x7269]]
      else []) @
     (if [0x7761, 0x7720] \<in> fst ` set lf
      then [[0x4FDD, 0x6301, 0x89C4, 0x5F8B, 0x4F5C, 0x606F, 0xFF0C, 0x786E, 0x4FDD, 0x5145, 0x8DB3, 0x7761, 0x7720]]
      else []) @
     (if [0x8FD0, 0x52A8] \<in> fst ` set lf
      then [[0x9002, 0x5F53, 0x8FD0, 0x52A8, 0xFF0C, 0x589E, 0x5F3A, 0x4F53, 0x8D28]]
      else [])"

definition static_recommendations :: "pystr list" where
  "static_recommendations =
    [[0x5EFA, 0x8BAE, 0x5C3D, 0x5FEB, 0x5C31, 0x533B, 0x786E, 0x8BCA, 0x5E76, 0x63A5, 0x53D7, 0x6CBB, 0x7597],
     [0x5BC6, 0x5207, 0x89C2, 0x5BDF, 0x75C7, 0x72B6, 0x53D8, 0x5316],
     [0x5982, 0x6709, 0x75C7, 0x72B6, 0x52A0, 0x91CD, 0xFF0C, 0x53CA, 0x65F6, 0x5C31, 0x533B]]"

definition generate_final_diagnosis :: "COTCAgent \<Rightarrow> DiseaseMatchProgress \<Rightarrow> PatientProfile \<Rightarrow> response" where
  "generate_final_diagnosis self disease patient_profile =
     Diagnosis_complete (current_analysis_step self)
       \<lparr>dg_disease_name = disease_name disease,
        dg_confidence = ''high'',
        dg_match_percentage = match_percentage disease,
        dg_confirmed_symptoms = confirmed_names patient_profile,
        dg_reasoning =
          [0x57FA, 0x4E8E, 0x75C7, 0x72B6, 0x5206, 0x6790, 0xFF0C, 0x60A8, 0x60A3, 0x6709]
          @ disease_name disease @ [0x7684, 0x6982, 0x7387, 0x5F88, 0x9AD8]\<rparr>
       static_recommendations
       (generate_lifestyle_advice (lifestyle_factors patient_profile))"

definition generate_targeted_questions :: "DiseaseMatchProgress \<Rightarrow> PatientProfile \<Rightarrow> pystr list" where
  "generate_targeted_questions focus_disease patient_profile =
     take 2
       (map (\<lambda>symptom. [0x60A8, 0x662F, 0x5426, 0x8FD8, 0x51FA, 0x73B0, 0x4E86] @ symptom
                         @ [0x7684, 0x75C7, 0x72B6, 0xFF1F])
            (take 1 (missing_symptoms focus_disease))
        @ [if py_in [0x80A0, 0x80C3] (disease_name focus_disease)
              \<or> py_in [0x6D88, 0x5316] (disease_name focus_disease)
           then [0x60A8, 0x6700, 0x8FD1, 0x7684, 0x996E, 0x98DF, 0x4E60, 0x60EF, 0x6709, 0x4EC0, 0x4E48, 0x53D8, 0x5316, 0x5417, 0xFF1F]
           else if py_in [0x5934, 0x75DB] (disease_name focus_disease)
              \<or> py_in [0x504F, 0x5934, 0x75DB] (disease_name focus_disease)
           then [0x60A8, 0x6700, 0x8FD1, 0x7684, 0x5DE5, 0x4F5C, 0x538B, 0x529B, 0x5927, 0x5417, 0xFF1F]
           else if py_in [0x5931, 0x7720] (disease_name focus_disease)
              \<or> py_in [0x7761, 0x7720] (disease_name focus_disease)
           then [0x60A8, 0x7684, 0x7761, 0x7720, 0x8D28, 0x91CF, 0x5982, 0x4F55, 0xFF1F]
           else [0x60A8, 0x6700, 0x8FD1, 0x7684, 0x751F, 0x6D3B, 0x4E60, 0x60EF, 0x6709, 0x4EC0, 0x4E48, 0x53D8, 0x5316, 0x5417, 0xFF1F]])"

definition generate_match_visualization :: "DiseaseMatchProgress \<Rightarrow> PatientProfile \<Rightarrow> match_visualization" where
  "generate_match_visualization focus_disease patient_profile =
     \<lparr>mv_disease_name = disease_name focus_disease,
      mv_current = confirmed_count focus_disease,
      mv_total = total_symptoms focus_disease,
      mv_percentage = match_percentage focus_disease,
      mv_confirmed = confirmed_names patient_profile,
      mv_missing = take 3 (missing_symptoms focus_disease),
      mv_total_needed = total_symptoms focus_disease,
      mv_next_steps =
        [0x9700, 0x8981, 0x786E, 0x8BA4, 0x0020]
        @ str_int (int (total_symptoms focus_disease) - int (confirmed_count focus_disease))
        @ [0x0020, 0x4E2A, 0x75C7, 0x72B6, 0x624D, 0x80FD, 0x5B8C, 0x6210, 0x8BCA, 0x65AD]\<rparr>"

definition generic_questions :: "pystr list" where
  "generic_questions =
    [[0x60A8, 0x80FD, 0x66F4, 0x8BE6, 0x7EC6, 0x5730, 0x63CF, 0x8FF0, 0x4E00, 0x4E0B, 0x75C7, 0x72B6, 0x5417, 0xFF1F],
     [0x8FD9, 0x4E9B, 0x75C7, 0x72B6, 0x662F, 0x4EC0, 0x4E48, 0x65F6, 0x5019, 0x5F00, 0x59CB, 0x7684, 0xFF1F],
     [0x75C7, 0x72B6, 0x7684, 0x4E25, 0x91CD, 0x7A0B, 0x5EA6, 0x5982, 0x4F55, 0xFF1F]]"

text \<open>
  \<open>generate_verification_questions\<close> stores the focus disease in the agent, so it returns
  the agent with the response.
\<close>

definition generate_verification_questions ::
  "COTCAgent \<Rightarrow> DiseaseMatchProgress list \<Rightarrow> PatientProfile \<Rightarrow> response \<times> COTCAgent" where
  "generate_verification_questions self disease_progress patient_profile =
     (case disease_progress of
        focus_disease # _ \<Rightarrow>
          (let self' = self\<lparr>current_disease_focus := Some focus_disease\<rparr>
           in if match_percentage focus_disease \<ge> 100
              then (generate_final_diagnosis self' focus_disease patient_profile, self')
              else (Verification_needed (current_analysis_step self')
                      \<lparr>fd_disease_id = disease_id focus_disease,
                       fd_disease_name = disease_name focus_disease,
                       fd_match_percentage = match_percentage focus_disease,
                       fd_confirmed_symptoms = confirmed_names patient_profile,
                       fd_missing_symptoms = take 3 (missing_symptoms focus_disease),
                       fd_total_symptoms = total_symptoms focus_disease\<rparr>
                      (generate_targeted_questions focus_disease patient_profile)
                      (generate_match_visualization focus_disease patient_profile),
                    self'))
      | [] \<Rightarrow>
          (No_matches (current_analysis_step self)
             [0x672A, 0x627E, 0x5230, 0x5339, 0x914D, 0x7684, 0x75BE, 0x75C5, 0x6A21, 0x5F0F]
             generic_questions,
           self))"

subsection \<open>Turns\<close>

text \<open>
  A turn mutates the profile (and, through the focus disease, the agent), so it returns the
  response with the agent and the profile after the turn.
\<close>

definition process_user_query ::
  "COTCAgent \<Rightarrow> pystr \<Rightarrow> PatientProfile \<Rightarrow> response \<times> COTCAgent \<times> PatientProfile" where
  "process_user_query self user_input patient_profile =
     (let new_symptoms = extract_and_confirm_symptoms user_input patient_profile;
          profile' = patient_profile\<lparr>confirmed_symptoms :=
                       confirmed_symptoms patient_profile @ new_symptoms\<rparr>;
          disease_progress = find_potential_diseases (disease_matcher self) (confirmed_symptoms profile');
          perfect_matches = filter (\<lambda>d. match_percentage d \<ge> 100) disease_progress
      in case perfect_matches of
           d # _ \<Rightarrow> (generate_final_diagnosis self d profile', self, profile')
         | [] \<Rightarrow> (case generate_verification_questions self disease_progress profile' of
                    (r, self') \<Rightarrow> (r, self', profile')))"

text \<open>The lifestyle keyword families of \<open>analyze_user_response\<close>, in the order of the dict literal.\<close>

definition lifestyle_keywords :: "(pystr \<times> pystr list) list" where
  "lifestyle_keywords =
    [([0x538B, 0x529B], [[0x538B, 0x529B], [0x7D27, 0x5F20], [0x7126, 0x8651], [0x5DE5, 0x4F5C]]),
     ([0x996E, 0x98DF], [[0x996E, 0x98DF], [0x5403], [0x98DF, 0x7269], [0x6CB9, 0x817B]]),
     ([0x7761, 0x7720], [[0x7761, 0x7720], [0x7761, 0x89C9], [0x5931, 0x7720], [0x4F11, 0x606F]]),
     ([0x8FD0, 0x52A8], [[0x8FD0, 0x52A8], [0x953B, 0x70BC], [0x6D3B, 0x52A8], [0x8D70, 0x8DEF]])]"

definition affirms :: "pystr \<Rightarrow> bool" where
  "affirms user_response =
     (py_in [0x662F] user_response \<or> py_in [0x6709] user_response
      \<or> py_in [0x786E, 0x5B9E] user_response)"

text \<open>
  \<open>d[k] = v\<close> on an insertion-ordered dict is \<open>AList.update\<close>: the value of an existing
  key is replaced in place, a new key is added at the end.
\<close>

definition analyze_user_response ::
  "COTCAgent \<Rightarrow> pystr \<Rightarrow> PatientProfile \<Rightarrow> SymptomMatch list \<times> PatientProfile" where
  "analyze_user_response self user_response patient_profile =
     (let new_confirmations =
            (case current_disease_focus self of
               None \<Rightarrow> []
             | Some focus \<Rightarrow>
                 map (\<lambda>ms. new_match ms ''user_confirmation'')
                   (filter (\<lambda>ms. py_in ms user_response \<and> affirms user_response)
                           (missing_symptoms focus)));
          lf = fold (\<lambda>(factor, keywords) lf.
                       if \<exists>keyword \<in> set keywords. py_in keyword user_response
                       then AList.update factor user_response lf
                       else lf)
                    lifestyle_keywords (lifestyle_factors patient_profile)
      in (new_confirmations, patient_profile\<lparr>lifestyle_factors := lf\<rparr>))"

definition process_user_response ::
  "COTCAgent \<Rightarrow> pystr \<Rightarrow> PatientProfile \<Rightarrow> response \<times> COTCAgent \<times> PatientProfile" where
  "process_user_response self user_response patient_profile =
     (case analyze_user_response self user_response patient_profile of
        (new_confirmations, profile1) \<Rightarrow>
          (let profile' = profile1\<lparr>confirmed_symptoms :=
                            confirmed_symptoms profile1 @ new_confirmations\<rparr>;
               disease_progress = find_potential_diseases (disease_matcher self) (confirmed_symptoms profile');
               perfect_matches = filter (\<lambda>d. match_percentage d \<ge> 100) disease_progress
           in case perfect_matches of
                d # _ \<Rightarrow> (generate_final_diagnosis self d profile', self, profile')
              | [] \<Rightarrow> (case generate_verification_questions self disease_progress profile' of
                         (r, self') \<Rightarrow> (r, self', profile'))))"

section \<open>DS/improved\_symptom\_normalizer.py\<close>

subsection \<open>The semantic group table\<close>

text \<open>
  The dict literal of \<open>_create_detailed_semantic_groups\<close>, in its order: each entry is a
  canonical name with its list of variants.
\<close>

definition semantic_groups :: "(pystr \<times> pystr list) list" where
  "semantic_groups =
     [([0x5934, 0x75DB],
       [[0x5934, 0x75DB], [0x5934, 0x75BC], [0x5934, 0x90E8, 0x75BC, 0x75DB],
        [0x5934, 0x80C0, 0x75DB], [0x5934, 0x90E8, 0x80C0, 0x75DB]]),
      ([0x504F, 0x5934, 0x75DB],
       [[0x504F, 0x5934, 0x75DB], [0x504F, 0x4FA7, 0x5934, 0x75DB],
        [0x5355, 0x4FA7, 0x5934, 0x75DB], [0x640F, 0x52A8, 0x6027, 0x5934, 0x75DB]]),
      ([0x9885, 0x5185, 0x538B, 0x589E, 0x9AD8, 0x6027, 0x5934, 0x75DB],
       [[0x9885, 0x5185, 0x538B, 0x589E, 0x9AD8], [0x9885, 0x538B, 0x589E, 0x9AD8],
        [0x8111, 0x538B, 0x589E, 0x9AD8, 0x5934, 0x75DB]]),
      ([0x7D27, 0x5F20, 0x6027, 0x5934, 0x75DB],
       [[0x7D27, 0x5F20, 0x6027, 0x5934, 0x75DB], [0x7D27, 0x5F20, 0x578B, 0x5934, 0x75DB],
        [0x538B, 0x8FEB, 0x6027, 0x5934, 0x75DB]]),
      ([0x9762, 0x90E8, 0x75BC, 0x75DB],
       [[0x9762, 0x90E8, 0x75BC, 0x75DB], [0x9762, 0x75DB], [0x8138, 0x75DB],
        [0x9762, 0x90E8, 0x4E0D, 0x9002]]),
      ([0x7259, 0x75DB],
       [[0x7259, 0x75DB], [0x7259, 0x75BC], [0x7259, 0x9F7F, 0x75BC, 0x75DB],
        [0x7259, 0x9F7F, 0x75DB]]),
      ([0x4E0B, 0x988C, 0x75DB],
       [[0x4E0B, 0x988C, 0x75BC, 0x75DB], [0x4E0B, 0x988C, 0x75DB],
        [0x989E, 0x4E0B, 0x988C, 0x5173, 0x8282, 0x75DB]]),
      ([0x9888, 0x75DB],
       [[0x9888, 0x75DB], [0x9888, 0x90E8, 0x75BC, 0x75DB], [0x8116, 0x5B50, 0x75DB],
        [0x9888, 0x690E, 0x75DB], [0x9888, 0x80A9, 0x75DB]]),
      ([0x54BD, 0x75DB],
       [[0x54BD, 0x75DB], [0x54BD, 0x5589, 0x75DB], [0x5589, 0x5499, 0x75DB],
        [0x541E, 0x54BD, 0x75BC, 0x75DB], [0x54BD, 0x90E8, 0x75BC, 0x75DB],
        [0x5589, 0x90E8, 0x75BC, 0x75DB]]),
      ([0x80F8, 0x75DB],
       [[0x80F8, 0x75DB], [0x80F8, 0x90E8, 0x75BC, 0x75DB], [0x524D, 0x80F8, 0x75DB]]),
      ([0x5FC3, 0x524D, 0x533A, 0x75BC, 0x75DB],
       [[0x5FC3, 0x524D, 0x533A, 0x75BC, 0x75DB], [0x5FC3, 0x524D, 0x533A, 0x75DB],
        [0x5FC3, 0x810F, 0x533A, 0x75BC, 0x75DB], [0x5FC3, 0x53E3, 0x75DB]]),
      ([0x80F8, 0x95F7, 0x75DB],
       [[0x80F8, 0x95F7, 0x75DB], [0x80F8, 0x90E8, 0x95F7, 0x75DB],
        [0x80F8, 0x90E8, 0x538B, 0x8FEB, 0x6027, 0x75BC, 0x75DB]]),
      ([0x808B, 0x95F4, 0x795E, 0x7ECF, 0x75DB],
       [[0x808B, 0x95F4, 0x795E, 0x7ECF, 0x75DB], [0x808B, 0x95F4, 0x75DB],
        [0x808B, 0x9AA8, 0x75DB]]),
      ([0x80CC, 0x75DB],
       [[0x80CC, 0x75DB], [0x80CC, 0x90E8, 0x75BC, 0x75DB], [0x540E, 0x80CC, 0x75DB],
        [0x810A, 0x80CC, 0x75DB]]),
      ([0x4E0A, 0x8179, 0x75DB],
       [[0x4E0A, 0x8179, 0x75DB], [0x4E0A, 0x8179, 0x90E8, 0x75BC, 0x75DB],
        [0x4E0A, 0x8179, 0x75BC, 0x75DB], [0x80C3, 0x533A, 0x75BC, 0x75DB], [0x80C3, 0x75DB],
        [0x80C3, 0x90E8, 0x75BC, 0x75DB]]),
      ([0x4E0B, 0x8179, 0x75DB],
       [[0x4E0B, 0x8179, 0x75DB], [0x4E0B, 0x8179, 0x90E8, 0x75BC, 0x75DB],
        [0x4E0B, 0x8179, 0x75BC, 0x75DB], [0x5C0F, 0x8179, 0x75DB],
        [0x5C0F, 0x8179, 0x75BC, 0x75DB]]),
      ([0x8179, 0x75DB],
       [[0x8179, 0x75DB], [0x8179, 0x90E8, 0x75BC, 0x75DB], [0x809A, 0x5B50, 0x75DB],
        [0x809A, 0x75DB]]),
      ([0x53F3, 0x4E0A, 0x8179, 0x75DB],
       [[0x53F3, 0x4E0A, 0x8179, 0x75DB], [0x53F3, 0x4E0A, 0x8179, 0x90E8, 0x75BC, 0x75DB],
        [0x809D, 0x533A, 0x75BC, 0x75DB]]),
      ([0x5DE6, 0x4E0A, 0x8179, 0x75DB],
       [[0x5DE6, 0x4E0A, 0x8179, 0x75DB], [0x5DE6, 0x4E0A, 0x8179, 0x90E8, 0x75BC, 0x75DB],
        [0x813E, 0x533A, 0x75BC, 0x75DB]]),
      ([0x8110, 0x5468, 0x75DB],
       [[0x8110, 0x5468, 0x75DB], [0x8110, 0x5468, 0x75BC, 0x75DB],
        [0x809A, 0x8110, 0x5468, 0x56F4, 0x75DB]]),
      ([0x8179, 0x7EDE, 0x75DB],
       [[0x8179, 0x7EDE, 0x75DB], [0x7EDE, 0x75DB], [0x75C9, 0x631B, 0x6027, 0x8179, 0x75DB]]),
      ([0x8170, 0x75DB],
       [[0x8170, 0x75DB], [0x8170, 0x90E8, 0x75BC, 0x75DB], [0x8170, 0x9178],
        [0x8170, 0x9178, 0x75DB]]),
      ([0x8170, 0x80CC, 0x75DB],
       [[0x8170, 0x80CC, 0x75DB], [0x8170, 0x80CC, 0x90E8, 0x75BC, 0x75DB],
        [0x8170, 0x810A, 0x75DB]]),
      ([0x80BE, 0x533A, 0x75BC, 0x75DB],
       [[0x80BE, 0x533A, 0x75BC, 0x75DB], [0x80BE, 0x533A, 0x75DB],
        [0x8170, 0x80BE, 0x533A, 0x75DB]]),
      ([0x5173, 0x8282, 0x75DB],
       [[0x5173, 0x8282, 0x75BC, 0x75DB], [0x5173, 0x8282, 0x75DB],
        [0x5173, 0x8282, 0x9178, 0x75DB], [0x5173, 0x8282, 0x80C0, 0x75DB]]),
      ([0x808C, 0x8089, 0x75DB],
       [[0x808C, 0x8089, 0x75BC, 0x75DB], [0x808C, 0x8089, 0x75DB],
        [0x808C, 0x8089, 0x9178, 0x75DB], [0x808C, 0x75DB], [0x808C, 0x8089, 0x80C0, 0x75DB]]),
      ([0x9AA8, 0x75DB],
       [[0x9AA8, 0x75DB], [0x9AA8, 0x75BC], [0x9AA8, 0x9ABC, 0x75BC, 0x75DB],
        [0x9AA8, 0x5934, 0x75DB]]),
      ([0x56DB, 0x80A2, 0x75DB],
       [[0x56DB, 0x80A2, 0x75DB], [0x56DB, 0x80A2, 0x75BC, 0x75DB], [0x624B, 0x811A, 0x75DB]]),
      ([0x624B, 0x75DB],
       [[0x624B, 0x75DB], [0x624B, 0x90E8, 0x75BC, 0x75DB], [0x624B, 0x75BC]]),
      ([0x8155, 0x75DB],
       [[0x8155, 0x75DB], [0x624B, 0x8155, 0x75DB], [0x8155, 0x5173, 0x8282, 0x75DB]]),
      ([0x6307, 0x75DB],
       [[0x6307, 0x75DB], [0x624B, 0x6307, 0x75DB], [0x624B, 0x6307, 0x75BC, 0x75DB]]),
      ([0x817F, 0x75DB],
       [[0x817F, 0x75DB], [0x817F, 0x90E8, 0x75BC, 0x75DB], [0x4E0B, 0x80A2, 0x75DB]]),
      ([0x819D, 0x75DB],
       [[0x819D, 0x75DB], [0x819D, 0x76D6, 0x75DB], [0x819D, 0x5173, 0x8282, 0x75DB],
        [0x819D, 0x90E8, 0x75BC, 0x75DB]]),
      ([0x8E1D, 0x75DB],
       [[0x8E1D, 0x75DB], [0x811A, 0x8E1D, 0x75DB], [0x8E1D, 0x5173, 0x8282, 0x75DB]]),
      ([0x8DB3, 0x75DB],
       [[0x8DB3, 0x75DB], [0x811A, 0x75DB], [0x8DB3, 0x90E8, 0x75BC, 0x75DB]]),
      ([0x76C6, 0x8154, 0x75DB],
       [[0x76C6, 0x8154, 0x75DB], [0x76C6, 0x8154, 0x75BC, 0x75DB],
        [0x76C6, 0x8154, 0x4E0D, 0x9002]]),
      ([0x4F1A, 0x9634, 0x75DB],
       [[0x4F1A, 0x9634, 0x75DB], [0x4F1A, 0x9634, 0x75BC, 0x75DB],
        [0x4F1A, 0x9634, 0x90E8, 0x75BC, 0x75DB]]),
      ([0x8033, 0x75DB],
       [[0x8033, 0x75DB], [0x8033, 0x90E8, 0x75BC, 0x75DB], [0x8033, 0x6735, 0x75DB],
        [0x8033, 0x5185, 0x75BC, 0x75DB]]),
      ([0x773C, 0x75DB],
       [[0x773C, 0x75DB], [0x773C, 0x90E8, 0x75BC, 0x75DB], [0x773C, 0x775B, 0x75BC, 0x75DB],
        [0x773C, 0x7403, 0x75DB]]),
      ([0x9F3B, 0x75DB],
       [[0x9F3B, 0x75DB], [0x9F3B, 0x90E8, 0x75BC, 0x75DB], [0x9F3B, 0x5B50, 0x75DB]]),
      ([0x5C3F, 0x75DB],
       [[0x5C3F, 0x75DB], [0x6392, 0x5C3F, 0x75BC, 0x75DB], [0x5C0F, 0x4FBF, 0x75BC, 0x75DB],
        [0x5C3F, 0x9053, 0x75BC, 0x75DB], [0x6392, 0x5C3F, 0x65F6, 0x75BC, 0x75DB],
        [0x5C3F, 0x9053, 0x707C, 0x75DB]]),
      ([0x777E, 0x4E38, 0x75DB],
       [[0x777E, 0x4E38, 0x75DB], [0x777E, 0x4E38, 0x75BC, 0x75DB], [0x9634, 0x56CA, 0x75DB]]),
      ([0x523A, 0x75DB],
       [[0x523A, 0x75DB], [0x9488, 0x523A, 0x6837, 0x75BC, 0x75DB], [0x9510, 0x75DB]]),
      ([0x80C0, 0x75DB],
       [[0x80C0, 0x75DB], [0x80C0, 0x75BC], [0x80C0, 0x6EE1, 0x75DB]]),
      ([0x9690, 0x75DB],
       [[0x9690, 0x75DB], [0x9690, 0x9690, 0x4F5C, 0x75DB], [0x949D, 0x75DB]]),
      ([0x7EDE, 0x75DB],
       [[0x7EDE, 0x75DB], [0x75C9, 0x631B, 0x6027, 0x75BC, 0x75DB],
        [0x7EDE, 0x626D, 0x6837, 0x75BC, 0x75DB]]),
      ([0x6495, 0x88C2, 0x75DB],
       [[0x6495, 0x88C2, 0x75DB], [0x6495, 0x88C2, 0x6837, 0x75BC, 0x75DB],
        [0x6495, 0x626F, 0x75DB]]),
      ([0x70E7, 0x707C, 0x75DB],
       [[0x70E7, 0x707C, 0x75DB], [0x707C, 0x75DB], [0x70E7, 0x707C, 0x611F]]),
      ([0x640F, 0x52A8, 0x6027, 0x75BC, 0x75DB],
       [[0x640F, 0x52A8, 0x6027, 0x75BC, 0x75DB], [0x8DF3, 0x75DB], [0x640F, 0x52A8, 0x75DB]]),
      ([0x5267, 0x75DB],
       [[0x5267, 0x75DB], [0x5267, 0x70C8, 0x75BC, 0x75DB], [0x5267, 0x75BC],
        [0x4E25, 0x91CD, 0x75BC, 0x75DB]]),
      ([0x53D1, 0x70ED],
       [[0x53D1, 0x70ED], [0x53D1, 0x70E7], [0x4F53, 0x6E29, 0x5347, 0x9AD8]]),
      ([0x9AD8, 0x70ED],
       [[0x9AD8, 0x70ED], [0x9AD8, 0x70E7], [0x9AD8, 0x5EA6, 0x53D1, 0x70ED]]),
      ([0x4F4E, 0x70ED],
       [[0x4F4E, 0x70ED], [0x4F4E, 0x70E7], [0x5FAE, 0x70ED], [0x8F7B, 0x5EA6, 0x53D1, 0x70ED]]),
      ([0x4E2D, 0x7B49, 0x70ED, 0x5EA6],
       [[0x4E2D, 0x7B49, 0x70ED, 0x5EA6], [0x4E2D, 0x5EA6, 0x53D1, 0x70ED],
        [0x4E2D, 0x7B49, 0x53D1, 0x70ED]]),
      ([0x6301, 0x7EED, 0x53D1, 0x70ED],
       [[0x6301, 0x7EED, 0x53D1, 0x70ED], [0x6301, 0x7EED, 0x53D1, 0x70E7],
        [0x8FDE, 0x7EED, 0x53D1, 0x70ED]]),
      ([0x95F4, 0x6B47, 0x6027, 0x53D1, 0x70ED],
       [[0x95F4, 0x6B47, 0x6027, 0x53D1, 0x70ED], [0x95F4, 0x6B47, 0x53D1, 0x70ED],
        [0x9635, 0x53D1, 0x6027, 0x53D1, 0x70ED]]),
      ([0x5BD2, 0x6218],
       [[0x5BD2, 0x6218], [0x754F, 0x5BD2], [0x6015, 0x51B7], [0x6076, 0x5BD2],
        [0x6253, 0x5BD2, 0x6218]]),
      ([0x54B3, 0x55FD],
       [[0x54B3, 0x55FD], [0x54B3]]),
      ([0x5E72, 0x54B3],
       [[0x5E72, 0x54B3], [0x65E0, 0x75F0, 0x54B3, 0x55FD],
        [0x523A, 0x6FC0, 0x6027, 0x54B3, 0x55FD]]),
      ([0x6E7F, 0x54B3],
       [[0x6E7F, 0x54B3], [0x6709, 0x75F0, 0x54B3, 0x55FD]]),
      ([0x6162, 0x6027, 0x54B3, 0x55FD],
       [[0x6162, 0x6027, 0x54B3, 0x55FD], [0x6301, 0x7EED, 0x54B3, 0x55FD],
        [0x957F, 0x671F, 0x54B3, 0x55FD]]),
      ([0x54B3, 0x75F0],
       [[0x54B3, 0x75F0], [0x54AF, 0x75F0], [0x75F0, 0x591A], [0x6709, 0x75F0],
        [0x75F0, 0x6DB2, 0x589E, 0x591A]]),
      ([0x8113, 0x75F0],
       [[0x8113, 0x75F0], [0x8113, 0x6027, 0x75F0], [0x9EC4, 0x75F0]]),
      ([0x8840, 0x75F0],
       [[0x8840, 0x75F0], [0x75F0, 0x4E2D, 0x5E26, 0x8840]]),
      ([0x54AF, 0x8840],
       [[0x54AF, 0x8840], [0x54B3, 0x8840], [0x5410, 0x8840]]),
      ([0x547C, 0x5438, 0x56F0, 0x96BE],
       [[0x547C, 0x5438, 0x56F0, 0x96BE], [0x6C14, 0x77ED], [0x6C14, 0x4FC3],
        [0x547C, 0x5438, 0x6025, 0x4FC3]]),
      ([0x5598, 0x606F],
       [[0x5598, 0x606F], [0x5598], [0x6C14, 0x5598], [0x54EE, 0x5598]]),
      ([0x80F8, 0x95F7],
       [[0x80F8, 0x95F7], [0x80F8, 0x90E8, 0x95F7, 0x80C0],
        [0x80F8, 0x90E8, 0x538B, 0x8FEB, 0x611F], [0x618B, 0x6C14]]),
      ([0x6076, 0x5FC3],
       [[0x6076, 0x5FC3], [0x60F3, 0x5410], [0x6076, 0x5FC3, 0x611F], [0x53CD, 0x80C3]]),
      ([0x5455, 0x5410],
       [[0x5455, 0x5410], [0x5410], [0x5455], [0x5455, 0x51FA]]),
      ([0x5E72, 0x5455],
       [[0x5E72, 0x5455], [0x5E72, 0x5410], [0x7A7A, 0x5455]]),
      ([0x8179, 0x6CFB],
       [[0x8179, 0x6CFB], [0x62C9, 0x809A, 0x5B50],
        [0x5927, 0x4FBF, 0x6B21, 0x6570, 0x589E, 0x591A], [0x7A00, 0x4FBF]]),
      ([0x6C34, 0x6837, 0x4FBF],
       [[0x6C34, 0x6837, 0x4FBF], [0x6C34, 0x6CFB], [0x6C34, 0x6837, 0x8179, 0x6CFB]]),
      ([0x4FBF, 0x79D8],
       [[0x4FBF, 0x79D8], [0x5927, 0x4FBF, 0x5E72, 0x71E5], [0x6392, 0x4FBF, 0x56F0, 0x96BE],
        [0x5927, 0x4FBF, 0x79D8, 0x7ED3]]),
      ([0x8179, 0x80C0],
       [[0x8179, 0x80C0], [0x8179, 0x90E8, 0x80C0, 0x6EE1], [0x809A, 0x5B50, 0x80C0],
        [0x80C3, 0x80C0], [0x8179, 0x90E8, 0x80C0, 0x6C14]]),
      ([0x98DF, 0x6B32, 0x4E0D, 0x632F],
       [[0x98DF, 0x6B32, 0x4E0D, 0x632F], [0x98DF, 0x6B32, 0x51CF, 0x9000],
        [0x4E0D, 0x60F3, 0x5403, 0x996D], [0x538C, 0x98DF], [0x98DF, 0x6B32, 0x5DEE]]),
      ([0x4FBF, 0x8840],
       [[0x4FBF, 0x8840], [0x5927, 0x4FBF, 0x5E26, 0x8840], [0x8840, 0x4FBF]]),
      ([0x9ED1, 0x4FBF],
       [[0x9ED1, 0x4FBF], [0x67CF, 0x6CB9, 0x6837, 0x4FBF], [0x9ED1, 0x8272, 0x5927, 0x4FBF]]),
      ([0x91CC, 0x6025, 0x540E, 0x91CD],
       [[0x91CC, 0x6025, 0x540E, 0x91CD], [0x4FBF, 0x610F, 0x9891, 0x7E41],
        [0x6392, 0x4FBF, 0x4E0D, 0x5C3D, 0x611F]]),
      ([0x5934, 0x6655],
       [[0x5934, 0x6655], [0x5934, 0x660F], [0x6655]]),
      ([0x7729, 0x6655],
       [[0x7729, 0x6655], [0x6655, 0x7729], [0x7729, 0x6655, 0x611F], [0x65CB, 0x8F6C, 0x611F]]),
      ([0x5931, 0x7720],
       [[0x5931, 0x7720], [0x7761, 0x7720, 0x969C, 0x788D], [0x5165, 0x7761, 0x56F0, 0x96BE],
        [0x7761, 0x7720, 0x4E0D, 0x597D], [0x4E0D, 0x80FD, 0x5165, 0x7761]]),
      ([0x55DC, 0x7761],
       [[0x55DC, 0x7761], [0x8FC7, 0x5EA6, 0x7761, 0x7720], [0x7761, 0x610F, 0x6D53]]),
      ([0x75B2, 0x52B3],
       [[0x75B2, 0x52B3], [0x4E4F, 0x529B], [0x65E0, 0x529B], [0x75B2, 0x5026],
        [0x7CBE, 0x795E, 0x4E0D, 0x632F], [0x4F53, 0x529B, 0x4E0B, 0x964D], [0x75B2, 0x4E4F]]),
      ([0x610F, 0x8BC6, 0x969C, 0x788D],
       [[0x610F, 0x8BC6, 0x969C, 0x788D], [0x610F, 0x8BC6, 0x6A21, 0x7CCA],
        [0x795E, 0x5FD7, 0x4E0D, 0x6E05]]),
      ([0x660F, 0x8FF7],
       [[0x660F, 0x8FF7], [0x4E0D, 0x7701, 0x4EBA, 0x4E8B], [0x5931, 0x53BB, 0x610F, 0x8BC6]]),
      ([0x62BD, 0x6410],
       [[0x62BD, 0x6410], [0x75C9, 0x631B], [0x62BD, 0x7B4B]]),
      ([0x766B, 0x75EB, 0x53D1, 0x4F5C],
       [[0x766B, 0x75EB, 0x53D1, 0x4F5C], [0x766B, 0x75EB], [0x62BD, 0x98CE]]),
      ([0x76AE, 0x75B9],
       [[0x76AE, 0x75B9], [0x76AE, 0x80A4, 0x7EA2, 0x75B9], [0x7EA2, 0x75B9], [0x75B9, 0x5B50],
        [0x76AE, 0x80A4, 0x75B9], [0x51FA, 0x75B9]]),
      ([0x7619, 0x75D2],
       [[0x7619, 0x75D2], [0x75D2], [0x76AE, 0x80A4, 0x7619, 0x75D2], [0x76AE, 0x75D2],
        [0x53D1, 0x75D2]]),
      ([0x7EA2, 0x80BF],
       [[0x7EA2, 0x80BF], [0x80BF, 0x80C0], [0x7EA2, 0x80C0]]),
      ([0x6C34, 0x80BF],
       [[0x6C34, 0x80BF], [0x6D6E, 0x80BF], [0x80BF, 0x80C0]]),
      ([0x76AE, 0x80A4, 0x5E72, 0x71E5],
       [[0x76AE, 0x80A4, 0x5E72, 0x71E5], [0x76AE, 0x80A4, 0x7C97, 0x7CD9],
        [0x76AE, 0x80A4, 0x8131, 0x5C51], [0x8131, 0x76AE], [0x76AE, 0x80A4, 0x8D77, 0x76AE]]),
      ([0x76AE, 0x80A4, 0x53D1, 0x7EA2],
       [[0x76AE, 0x80A4, 0x53D1, 0x7EA2], [0x76AE, 0x80A4, 0x6F6E, 0x7EA2], [0x7EA2, 0x6591]]),
      ([0x76AE, 0x80A4, 0x82CD, 0x767D],
       [[0x76AE, 0x80A4, 0x82CD, 0x767D], [0x9762, 0x8272, 0x82CD, 0x767D], [0x82CD, 0x767D]]),
      ([0x76AE, 0x80A4, 0x53D1, 0x9EC4],
       [[0x76AE, 0x80A4, 0x53D1, 0x9EC4], [0x9EC4, 0x75B8], [0x5DE9, 0x819C, 0x9EC4, 0x67D3]]),
      ([0x5C3F, 0x9891],
       [[0x5C3F, 0x9891], [0x5C0F, 0x4FBF, 0x9891, 0x7E41],
        [0x6392, 0x5C3F, 0x6B21, 0x6570, 0x589E, 0x591A], [0x5C3F, 0x6B21, 0x589E, 0x591A]]),
      ([0x5C3F, 0x6025],
       [[0x5C3F, 0x6025], [0x6025, 0x8FEB, 0x6027, 0x5C3F, 0x610F],
        [0x5C3F, 0x610F, 0x6025, 0x8FEB], [0x618B, 0x4E0D, 0x4F4F, 0x5C3F]]),
      ([0x8840, 0x5C3F],
       [[0x8840, 0x5C3F], [0x5C3F, 0x8840], [0x5C0F, 0x4FBF, 0x5E26, 0x8840],
        [0x5C3F, 0x6DB2, 0x53D1, 0x7EA2]]),
      ([0x86CB, 0x767D, 0x5C3F],
       [[0x86CB, 0x767D, 0x5C3F], [0x5C3F, 0x86CB, 0x767D], [0x5C3F, 0x6DB2, 0x6CE1, 0x6CAB]]),
      ([0x5C3F, 0x6F74, 0x7559],
       [[0x5C3F, 0x6F74, 0x7559], [0x6392, 0x5C3F, 0x56F0, 0x96BE], [0x5C3F, 0x4E0D, 0x51FA]]),
      ([0x591C, 0x5C3F, 0x589E, 0x591A],
       [[0x591C, 0x5C3F, 0x589E, 0x591A], [0x591C, 0x95F4, 0x591A, 0x5C3F],
        [0x591C, 0x5C3F, 0x9891, 0x7E41]]),
      ([0x5FC3, 0x60B8],
       [[0x5FC3, 0x60B8], [0x5FC3, 0x614C], [0x5FC3, 0x8DF3, 0x52A0, 0x5FEB],
        [0x5FC3, 0x8DF3, 0x5FEB]]),
      ([0x5FC3, 0x5F8B, 0x4E0D, 0x9F50],
       [[0x5FC3, 0x5F8B, 0x4E0D, 0x9F50], [0x5FC3, 0x8DF3, 0x4E0D, 0x89C4, 0x5F8B],
        [0x5FC3, 0x5F8B, 0x5931, 0x5E38]]),
      ([0x5FC3, 0x52A8, 0x8FC7, 0x901F],
       [[0x5FC3, 0x52A8, 0x8FC7, 0x901F], [0x5FC3, 0x8DF3, 0x8FC7, 0x5FEB],
        [0x5FC3, 0x7387, 0x5FEB]]),
      ([0x5FC3, 0x52A8, 0x8FC7, 0x7F13],
       [[0x5FC3, 0x52A8, 0x8FC7, 0x7F13], [0x5FC3, 0x8DF3, 0x8FC7, 0x6162],
        [0x5FC3, 0x7387, 0x6162]]),
      ([0x89C6, 0x529B, 0x6A21, 0x7CCA],
       [[0x89C6, 0x529B, 0x6A21, 0x7CCA], [0x89C6, 0x7269, 0x6A21, 0x7CCA],
        [0x770B, 0x4E1C, 0x897F, 0x6A21, 0x7CCA], [0x89C6, 0x529B, 0x4E0B, 0x964D],
        [0x89C6, 0x7269, 0x4E0D, 0x6E05]]),
      ([0x590D, 0x89C6],
       [[0x590D, 0x89C6], [0x770B, 0x4E1C, 0x897F, 0x91CD, 0x5F71], [0x53CC, 0x5F71]]),
      ([0x754F, 0x5149],
       [[0x754F, 0x5149], [0x6015, 0x5149], [0x5149, 0x654F, 0x611F],
        [0x89C1, 0x5149, 0x6D41, 0x6CEA]]),
      ([0x773C, 0x5E72],
       [[0x773C, 0x5E72], [0x773C, 0x775B, 0x5E72, 0x6DA9], [0x5E72, 0x773C]]),
      ([0x6D41, 0x6CEA],
       [[0x6D41, 0x6CEA], [0x6CEA, 0x6C34, 0x589E, 0x591A], [0x6EA2, 0x6CEA]]),
      ([0x773C, 0x7EA2],
       [[0x773C, 0x7EA2], [0x773C, 0x775B, 0x53D1, 0x7EA2], [0x7ED3, 0x819C, 0x5145, 0x8840]]),
      ([0x542C, 0x529B, 0x4E0B, 0x964D],
       [[0x542C, 0x529B, 0x4E0B, 0x964D], [0x542C, 0x529B, 0x51CF, 0x9000], [0x8033, 0x804B]]),
      ([0x8033, 0x9E23],
       [[0x8033, 0x9E23], [0x8033, 0x5185, 0x54CD, 0x58F0]]),
      ([0x8033, 0x6EA2, 0x6DB2],
       [[0x8033, 0x6EA2, 0x6DB2], [0x8033, 0x6735, 0x6D41, 0x6C34],
        [0x8033, 0x6735, 0x6D41, 0x8113]]),
      ([0x9F3B, 0x585E],
       [[0x9F3B, 0x585E], [0x9F3B, 0x5835], [0x9F3B, 0x5B50, 0x4E0D, 0x901A, 0x6C14],
        [0x9F3B, 0x963B, 0x585E]]),
      ([0x6D41, 0x9F3B, 0x6D95],
       [[0x6D41, 0x9F3B, 0x6D95], [0x9F3B, 0x6D95], [0x6D41, 0x6D95],
        [0x9F3B, 0x5206, 0x6CCC, 0x7269]]),
      ([0x6253, 0x55B7, 0x568F],
       [[0x6253, 0x55B7, 0x568F], [0x55B7, 0x568F], [0x8FDE, 0x7EED, 0x6253, 0x55B7, 0x568F]]),
      ([0x55C5, 0x89C9, 0x51CF, 0x9000],
       [[0x55C5, 0x89C9, 0x51CF, 0x9000], [0x55C5, 0x89C9, 0x4E27, 0x5931],
        [0x95FB, 0x4E0D, 0x5230, 0x5473, 0x9053]]),
      ([0x58F0, 0x97F3, 0x5636, 0x54D1],
       [[0x58F0, 0x97F3, 0x5636, 0x54D1], [0x55D3, 0x5B50, 0x54D1], [0x58F0, 0x5636]]),
      ([0x4F53, 0x91CD, 0x4E0B, 0x964D],
       [[0x4F53, 0x91CD, 0x4E0B, 0x964D], [0x4F53, 0x91CD, 0x51CF, 0x8F7B], [0x6D88, 0x7626],
        [0x4F53, 0x91CD, 0x964D, 0x4F4E], [0x7626, 0x4E86]]),
      ([0x4F53, 0x91CD, 0x589E, 0x52A0],
       [[0x4F53, 0x91CD, 0x589E, 0x52A0], [0x4F53, 0x91CD, 0x589E, 0x957F], [0x53D1, 0x80D6],
        [0x957F, 0x80D6]]),
      ([0x51FA, 0x6C57],
       [[0x51FA, 0x6C57], [0x591A, 0x6C57], [0x6C57, 0x591A]]),
      ([0x76D7, 0x6C57],
       [[0x76D7, 0x6C57], [0x591C, 0x95F4, 0x51FA, 0x6C57], [0x7761, 0x89C9, 0x51FA, 0x6C57]]),
      ([0x754F, 0x5BD2],
       [[0x754F, 0x5BD2], [0x6015, 0x51B7], [0x5BD2, 0x51B7]]),
      ([0x6015, 0x70ED],
       [[0x6015, 0x70ED], [0x754F, 0x70ED], [0x70ED, 0x611F]]),
      ([0x53E3, 0x6E34],
       [[0x53E3, 0x6E34], [0x6E34], [0x60F3, 0x559D, 0x6C34]]),
      ([0x53E3, 0x5E72],
       [[0x53E3, 0x5E72], [0x5634, 0x5E72], [0x53E3, 0x8154, 0x5E72, 0x71E5]]),
      ([0x591A, 0x5C3F],
       [[0x591A, 0x5C3F], [0x5C3F, 0x91CF, 0x589E, 0x591A], [0x5C0F, 0x4FBF, 0x591A]]),
      ([0x5C11, 0x5C3F],
       [[0x5C11, 0x5C3F], [0x5C3F, 0x91CF, 0x51CF, 0x5C11], [0x5C0F, 0x4FBF, 0x5C11]])]"

subsection \<open>Normalizing a symptom name\<close>

text \<open>
  \<open>re.sub\<close> deletes every character that is neither a word character of the
  regular-expression engine nor in the range U+4E00..U+9FFF. The engine's word class
  (Unicode letters, digits and the underscore) belongs to the library, not to the
  repository; it is the parameter \<open>isw\<close>. \<open>ascii_word\<close> is its restriction to ASCII,
  used where a concrete class is needed. The two nested loops return the canonical name of
  the first group one of whose variants contains the cleaned name or is contained in it.
\<close>

definition ascii_word :: "int \<Rightarrow> bool" where
  "ascii_word c =
     ((0x30 \<le> c \<and> c \<le> 0x39) \<or> (0x41 \<le> c \<and> c \<le> 0x5A) \<or> c = 0x5F \<or> (0x61 \<le> c \<and> c \<le> 0x7A))"

definition clean_name :: "(int \<Rightarrow> bool) \<Rightarrow> pystr \<Rightarrow> pystr" where
  "clean_name isw raw_name =
     filter (\<lambda>c. isw c \<or> (0x4E00 \<le> c \<and> c \<le> 0x9FFF)) raw_name"

definition group_matches :: "pystr \<Rightarrow> pystr \<times> pystr list \<Rightarrow> bool" where
  "group_matches cleaned_name g =
     (\<exists>variant \<in> set (snd g). py_in variant cleaned_name \<or> py_in cleaned_name variant)"

definition normalize_symptom_name :: "(int \<Rightarrow> bool) \<Rightarrow> pystr \<Rightarrow> pystr" where
  "normalize_symptom_name isw raw_name =
     (case find (group_matches (clean_name isw raw_name)) semantic_groups of
        Some g \<Rightarrow> fst g
      | None \<Rightarrow> clean_name isw raw_name)"

subsection \<open>Symptom ids: MD5 of the UTF-8 encoding\<close>

text \<open>
  \<open>str.encode('utf-8')\<close> raises \<open>UnicodeEncodeError\<close> on a surrogate code point
  (a JSON file can hold one); every other code point gives one to four bytes.
\<close>

datatype py_exception = UnicodeEncodeError

definition encodable :: "int \<Rightarrow> bool" where
  "encodable c = ((0 \<le> c \<and> c < 0xD800) \<or> (0xE000 \<le> c \<and> c \<le> 0x10FFFF))"

definition utf8_bytes :: "int \<Rightarrow> int list" where
  "utf8_bytes c =
     (if c < 0x80 then [c]
      else if c < 0x800 then [0xC0 + c div 64, 0x80 + c mod 64]
      else if c < 0x10000 then [0xE0 + c div 4096, 0x80 + (c div 64) mod 64, 0x80 + c mod 64]
      else [0xF0 + c div 262144, 0x80 + (c div 4096) mod 64, 0x80 + (c div 64) mod 64,
            0x80 + c mod 64])"

definition encode_utf8 :: "pystr \<Rightarrow> py_exception + int list" where
  "encode_utf8 s =
     (if list_all encodable s then Inr (concat (map utf8_bytes s)) else Inl UnicodeEncodeError)"

text \<open>
  \<open>hashlib.md5\<close> is the standard library's MD5. It is written here as RFC 1321 defines
  it, on 32-bit words held in \<open>int\<close> with the reduction modulo \<open>2^32\<close> written out as
  the mask \<open>0xFFFFFFFF\<close>: each round is the RFC's table of sixteen operations
  \<open>(k, s, t)\<close> (message word, rotation, constant), the digest is the four state words in
  little-endian byte order. The test vectors of the RFC are proved below.
\<close>

type_synonym md5_state = "int \<times> int \<times> int \<times> int"

definition add32 :: "int \<Rightarrow> int \<Rightarrow> int" where
  "add32 x y = (x + y) AND 0xFFFFFFFF"

definition not32 :: "int \<Rightarrow> int" where
  "not32 x = 0xFFFFFFFF - x"

definition rotl32 :: "int \<Rightarrow> nat \<Rightarrow> int" where
  "rotl32 x n = (push_bit n x AND 0xFFFFFFFF) OR drop_bit (32 - n) x"

definition md5_F :: "int \<Rightarrow> int \<Rightarrow> int \<Rightarrow> int" where
  "md5_F x y z = (x AND y) OR (not32 x AND z)"

definition md5_G :: "int \<Rightarrow> int \<Rightarrow> int \<Rightarrow> int" where
  "md5_G x y z = (x AND z) OR (y AND not32 z)"

definition md5_H :: "int \<Rightarrow> int \<Rightarrow> int \<Rightarrow> int" where
  "md5_H x y z = x XOR y XOR z"

definition md5_I :: "int \<Rightarrow> int \<Rightarrow> int \<Rightarrow> int" where
  "md5_I x y z = y XOR (x OR not32 z)"

definition md5_round1 :: "(nat \<times> nat \<times> int) list" where
  "md5_round1 =
     [(0, 7, 0xd76aa478), (1, 12, 0xe8c7b756), (2, 17, 0x242070db), (3, 22, 0xc1bdceee),
      (4, 7, 0xf57c0faf), (5, 12, 0x4787c62a), (6, 17, 0xa8304613), (7, 22, 0xfd469501),
      (8, 7, 0x698098d8), (9, 12, 0x8b44f7af), (10, 17, 0xffff5bb1), (11, 22, 0x895cd7be),
      (12, 7, 0x6b901122), (13, 12, 0xfd987193), (14, 17, 0xa679438e), (15, 22, 0x49b40821)]"

definition md5_round2 :: "(nat \<times> nat \<times> int) list" where
  "md5_round2 =
     [(1, 5, 0xf61e2562), (6, 9, 0xc040b340), (11, 14, 0x265e5a51), (0, 20, 0xe9b6c7aa),
      (5, 5, 0xd62f105d), (10, 9, 0x02441453), (15, 14, 0xd8a1e681), (4, 20, 0xe7d3fbc8),
      (9, 5, 0x21e1cde6), (14, 9, 0xc33707d6), (3, 14, 0xf4d50d87), (8, 20, 0x455a14ed),
      (13, 5, 0xa9e3e905), (2, 9, 0xfcefa3f8), (7, 14, 0x676f02d9), (12, 20, 0x8d2a4c8a)]"

definition md5_round3 :: "(nat \<times> nat \<times> int) list" where
  "md5_round3 =
     [(5, 4, 0xfffa3942), (8, 11, 0x8771f681), (11, 16, 0x6d9d6122), (14, 23, 0xfde5380c),
      (1, 4, 0xa4beea44), (4, 11, 0x4bdecfa9), (7, 16, 0xf6bb4b60), (10, 23, 0xbebfbc70),
      (13, 4, 0x289b7ec6), (0, 11, 0xeaa127fa), (3, 16, 0xd4ef3085), (6, 23, 0x04881d05),
      (9, 4, 0xd9d4d039), (12, 11, 0xe6db99e5), (15, 16, 0x1fa27cf8), (2, 23, 0xc4ac5665)]"

definition md5_round4 :: "(nat \<times> nat \<times> int) list" where
  "md5_round4 =
     [(0, 6, 0xf4292244), (7, 10, 0x432aff97), (14, 15, 0xab9423a7), (5, 21, 0xfc93a039),
      (12, 6, 0x655b59c3), (3, 10, 0x8f0ccc92), (10, 15, 0xffeff47d), (1, 21, 0x85845dd1),
      (8, 6, 0x6fa87e4f), (15, 10, 0xfe2ce6e0), (6, 15, 0xa3014314), (13, 21, 0x4e0811a1),
      (4, 6, 0xf7537e82), (11, 10, 0xbd3af235), (2, 15, 0x2ad7d2bb), (9, 21, 0xeb86d391)]"

fun md5_op :: "(int \<Rightarrow> int \<Rightarrow> int \<Rightarrow> int) \<Rightarrow> int list \<Rightarrow> nat \<times> nat \<times> int \<Rightarrow> md5_state \<Rightarrow> md5_state" where
  "md5_op f X (k, s, t) (a, b, c, d) =
     (d, add32 b (rotl32 ((a + f b c d + X ! k + t) AND 0xFFFFFFFF) s), b, c)"

fun le_word :: "int list \<Rightarrow> int" where
  "le_word [] = 0"
| "le_word (b # bs) = b + 256 * le_word bs"

fun words_of :: "nat \<Rightarrow> int list \<Rightarrow> int list" where
  "words_of 0 bs = []"
| "words_of (Suc n) bs = le_word (take 4 bs) # words_of n (drop 4 bs)"

fun add_state :: "md5_state \<Rightarrow> md5_state \<Rightarrow> md5_state" where
  "add_state (a0, b0, c0, d0) (a, b, c, d) = (add32 a0 a, add32 b0 b, add32 c0 c, add32 d0 d)"

definition md5_rounds :: "int list \<Rightarrow> md5_state \<Rightarrow> md5_state" where
  "md5_rounds X st =
     fold (md5_op md5_I X) md5_round4
       (fold (md5_op md5_H X) md5_round3
          (fold (md5_op md5_G X) md5_round2
             (fold (md5_op md5_F X) md5_round1 st)))"

definition md5_block :: "md5_state \<Rightarrow> int list \<Rightarrow> md5_state" where
  "md5_block st block = add_state st (md5_rounds (words_of 16 block) st)"

fun le_bytes :: "nat \<Rightarrow> int \<Rightarrow> int list" where
  "le_bytes 0 x = []"
| "le_bytes (Suc n) x = (x mod 256) # le_bytes n (x div 256)"

definition md5_pad :: "int list \<Rightarrow> int list" where
  "md5_pad msg =
     msg @ [0x80] @ replicate ((55 + 64 - length msg mod 64) mod 64) 0
     @ le_bytes 8 ((8 * int (length msg)) mod 0x10000000000000000)"

fun md5_blocks :: "nat \<Rightarrow> md5_state \<Rightarrow> int list \<Rightarrow> md5_state" where
  "md5_blocks 0 st bs = st"
| "md5_blocks (Suc n) st bs = md5_blocks n (md5_block st (take 64 bs)) (drop 64 bs)"

fun digest_bytes :: "md5_state \<Rightarrow> int list" where
  "digest_bytes (a, b, c, d) = le_bytes 4 a @ le_bytes 4 b @ le_bytes 4 c @ le_bytes 4 d"

definition md5 :: "int list \<Rightarrow> int list" where
  "md5 msg =
     digest_bytes (md5_blocks (length (md5_pad msg) div 64)
                     (0x67452301, 0xefcdab89, 0x98badcfe, 0x10325476) (md5_pad msg))"

definition hex_digit :: "int \<Rightarrow> int" where
  "hex_digit n = (if n < 10 then 0x30 + n else 0x57 + n)"

definition hexdigest :: "int list \<Rightarrow> pystr" where
  "hexdigest bs = concat (map (\<lambda>b. [hex_digit (b div 16), hex_digit (b mod 16)]) bs)"

text \<open>\<open>str.upper\<close> on the characters of a hexadecimal digest.\<close>

definition upper :: "int \<Rightarrow> int" where
  "upper c = (if 0x61 \<le> c \<and> c \<le> 0x7A then c - 0x20 else c)"

definition symptom_id_of_bytes :: "int list \<Rightarrow> pystr" where
  "symptom_id_of_bytes bs = [0x53, 0x59, 0x4D, 0x5F] @ map upper (take 8 (hexdigest (md5 bs)))"

definition generate_symptom_id :: "pystr \<Rightarrow> py_exception + pystr" where
  "generate_symptom_id normalized_name = map_sum id symptom_id_of_bytes (encode_utf8 normalized_name)"

subsection \<open>The normalizer and the build\<close>

text \<open>
  The instance state that the build reads and writes: \<open>unified_symptom_ids\<close> (normalized
  name to id) and the \<open>defaultdict(list)\<close> \<open>symptom_to_diseases\<close> (id to the disease
  entries appended so far), here \<open>norm_symptom_to_diseases\<close> since \<open>DiseaseMatcher\<close>
  has a field of that name. Both are insertion-ordered dicts.
\<close>

record disease_info =
  di_disease_id :: "pystr option"
  di_disease_name :: "pystr option"
  di_specificity :: bool

record ImprovedSymptomNormalizer =
  unified_symptom_ids :: "(pystr \<times> pystr) list"
  norm_symptom_to_diseases :: "(pystr \<times> disease_info list) list"

definition ImprovedSymptomNormalizer_init :: ImprovedSymptomNormalizer where
  "ImprovedSymptomNormalizer_init = \<lparr>unified_symptom_ids = [], norm_symptom_to_diseases = []\<rparr>"

text \<open>\<open>Counter\<close>: \<open>counter[k] += 1\<close>, keys in the order of their first occurrence.\<close>

fun counter_incr :: "'k \<Rightarrow> ('k \<times> nat) list \<Rightarrow> ('k \<times> nat) list" where
  "counter_incr k [] = [(k, 1)]"
| "counter_incr k ((k', n) # m) =
     (if k' = k then (k', n + 1) # m else (k', n) # counter_incr k m)"

definition analyze_symptoms ::
  "(int \<Rightarrow> bool) \<Rightarrow> disease_json list \<Rightarrow> (pystr \<times> nat) list \<times> (pystr \<times> pystr \<times> symptom_json) list" where
  "analyze_symptoms isw diseases_data =
     fold (\<lambda>disease acc.
             fold (\<lambda>symptom (symptom_counter, disease_symptom_pairs).
                     let sname = get_str (js_symptom_name symptom)
                     in if sname \<noteq> []
                        then (counter_incr (normalize_symptom_name isw sname) symptom_counter,
                              disease_symptom_pairs
                                @ [(get_str (jd_name disease), normalize_symptom_name isw sname, symptom)])
                        else (symptom_counter, disease_symptom_pairs))
                  (jd_symptoms disease) acc)
          diseases_data ([], [])"

text \<open>
  The loop \<open>if normalized_name not in self.unified_symptom_ids: ... = _generate_symptom_id(...)\<close>
  over the counter's keys; the exception of the encoder ends it.
\<close>

fun assign_ids :: "pystr list \<Rightarrow> (pystr \<times> pystr) list \<Rightarrow> py_exception + (pystr \<times> pystr) list" where
  "assign_ids [] ids = Inr ids"
| "assign_ids (n # ns) ids =
     (if n \<in> fst ` set ids then assign_ids ns ids
      else (case generate_symptom_id n of
              Inl e \<Rightarrow> Inl e
            | Inr i \<Rightarrow> assign_ids ns (ids @ [(n, i)])))"

definition get_bool :: "bool option \<Rightarrow> bool" where
  "get_bool v = (case v of None \<Rightarrow> False | Some b \<Rightarrow> b)"

text \<open>
  The body of the inner loop of \<open>normalize_disease_data\<close>: \<open>if unified_id:\<close> holds for
  an id that is present and not the empty string.
\<close>

definition update_symptom ::
  "(int \<Rightarrow> bool) \<Rightarrow> (pystr \<times> pystr) list \<Rightarrow> disease_json \<Rightarrow> symptom_json \<Rightarrow>
   symptom_json list \<times> (pystr \<times> disease_info list) list \<Rightarrow>
   symptom_json list \<times> (pystr \<times> disease_info list) list" where
  "update_symptom isw ids disease symptom acc =
     (let normalized_name = normalize_symptom_name isw (get_str (js_symptom_name symptom))
      in case map_of ids normalized_name of
           None \<Rightarrow> acc
         | Some unified_id \<Rightarrow>
             if unified_id \<noteq> []
             then (fst acc @ [symptom\<lparr>js_symptom_id := Some unified_id,
                                        js_normalized_name := Some normalized_name\<rparr>],
                   append_bucket unified_id
                     \<lparr>di_disease_id = jd_id disease,
                      di_disease_name = jd_name disease,
                      di_specificity = get_bool (js_specificity symptom)\<rparr>
                     (snd acc))
             else acc)"

definition update_disease ::
  "(int \<Rightarrow> bool) \<Rightarrow> (pystr \<times> pystr) list \<Rightarrow> disease_json \<Rightarrow>
   disease_json list \<times> (pystr \<times> disease_info list) list \<Rightarrow>
   disease_json list \<times> (pystr \<times> disease_info list) list" where
  "update_disease isw ids disease acc =
     (let r = fold (update_symptom isw ids disease) (jd_symptoms disease) ([], snd acc)
      in (fst acc @ [disease\<lparr>jd_symptoms := fst r\<rparr>], snd r))"

definition normalize_disease_data ::
  "(int \<Rightarrow> bool) \<Rightarrow> ImprovedSymptomNormalizer \<Rightarrow> disease_json list \<Rightarrow>
   py_exception + (disease_json list \<times> (pystr \<times> pystr) list) \<times> ImprovedSymptomNormalizer" where
  "normalize_disease_data isw self diseases_data =
     (case assign_ids (map fst (fst (analyze_symptoms isw diseases_data))) (unified_symptom_ids self) of
        Inl e \<Rightarrow> Inl e
      | Inr ids \<Rightarrow>
          (let r = fold (update_disease isw ids) diseases_data ([], norm_symptom_to_diseases self)
           in Inr ((fst r, ids),
                   \<lparr>unified_symptom_ids = ids, norm_symptom_to_diseases = snd r\<rparr>)))"

text \<open>
  The deduplication loop of \<open>create_reverse_mapping\<close>: an entry is kept when its
  \<open>disease_id\<close> is not among those seen so far.
\<close>

fun unique_diseases :: "disease_info list \<Rightarrow> pystr option list \<Rightarrow> disease_info list" where
  "unique_diseases [] seen_disease_ids = []"
| "unique_diseases (disease # diseases) seen_disease_ids =
     (if di_disease_id disease \<in> set seen_disease_ids
      then unique_diseases diseases seen_disease_ids
      else disease # unique_diseases diseases (di_disease_id disease # seen_disease_ids))"

record reverse_entry =
  re_symptom_name :: "pystr option"
  re_disease_count :: nat
  re_diseases :: "disease_info list"

definition create_reverse_mapping :: "ImprovedSymptomNormalizer \<Rightarrow> (pystr \<times> reverse_entry) list" where
  "create_reverse_mapping self =
     map (\<lambda>b. (fst b,
                \<lparr>re_symptom_name =
                   map_option fst (find (\<lambda>e. snd e = fst b) (unified_symptom_ids self)),
                 re_disease_count = length (unique_diseases (snd b) []),
                 re_diseases = unique_diseases (snd b) []\<rparr>))
         (norm_symptom_to_diseases self)"

text \<open>
  \<open>main\<close> of the normalizer takes the outcome of reading the input file. When the read
  fails it prints the error and returns: nothing is built or written (\<open>None\<close>). Otherwise
  it builds with a fresh normalizer and writes the two files (their statistics blocks
  hold counts and a float average and are left out).
\<close>

record normalizer_output =
  out_diseases :: "disease_json list"
  out_symptom_id_mapping :: "(pystr \<times> pystr) list"
  out_reverse_mapping :: "(pystr \<times> reverse_entry) list"

definition normalizer_main ::
  "(int \<Rightarrow> bool) \<Rightarrow> io_error + disease_json list \<Rightarrow> py_exception + normalizer_output option" where
  "normalizer_main isw r =
     (case r of
        Inl e \<Rightarrow> Inr None
      | Inr diseases_data \<Rightarrow>
          (case normalize_disease_data isw ImprovedSymptomNormalizer_init diseases_data of
             Inl e \<Rightarrow> Inl e
           | Inr res \<Rightarrow>
               Inr (Some \<lparr>out_diseases = fst (fst res),
                          out_symptom_id_mapping = snd (fst res),
                          out_reverse_mapping = create_reverse_mapping (snd res)\<rparr>)))"

section \<open>Auxiliary definitions for the properties\<close>

text \<open>
  \<open>mentions_factor f u\<close>: \<open>f\<close> is one of the four lifestyle families and the utterance
  \<open>u\<close> contains one of its keywords. \<open>lifestyle_step\<close> is the body of the loop over the
  families.
\<close>

definition mentions_factor :: "pystr \<Rightarrow> pystr \<Rightarrow> bool" where
  "mentions_factor factor u =
     (\<exists>keywords. (factor, keywords) \<in> set lifestyle_keywords \<and> (\<exists>k \<in> set keywords. py_in k u))"

definition lifestyle_step ::
  "pystr \<Rightarrow> pystr \<times> pystr list \<Rightarrow> (pystr \<times> pystr) list \<Rightarrow> (pystr \<times> pystr) list" where
  "lifestyle_step u =
     (\<lambda>(factor, keywords) lf.
        if \<exists>keyword \<in> set keywords. py_in keyword u then AList.update factor u lf else lf)"

text \<open>The patient of \<open>main\<close>: no confirmed symptoms, no lifestyle factors.\<close>

definition demo_patient :: PatientProfile where
  "demo_patient =
     \<lparr>patient_id = [0x70, 0x61, 0x74, 0x69, 0x65, 0x6E, 0x74, 0x5F, 0x30, 0x30, 0x30, 0x31],
      age = 35,
      gender = [0x5973],
      medical_history = [[0x65E0, 0x91CD, 0x5927, 0x75BE, 0x75C5, 0x53F2]],
      confirmed_symptoms = [],
      lifestyle_factors = [],
      conversation_history = []\<rparr>"









text \<open>
  A knowledge base with one disease, \<open>D001\<close> (U+7D27 U+5F20 U+6027 U+5934 U+75DB), whose
  symptoms are U+5934 U+75DB and U+5931 U+7720; the agent built from it; and the agent and
  the profile after the patient of \<open>main\<close> has said U+5934 U+75DB.
\<close>

definition demo_db :: "disease_json list" where
  "demo_db =
     [\<lparr>jd_id = Some [0x44, 0x30, 0x30, 0x31],
       jd_name = Some [0x7D27, 0x5F20, 0x6027, 0x5934, 0x75DB],
       jd_symptoms =
         [\<lparr>js_symptom_name = Some [0x5934, 0x75DB], js_specificity = Some True,
            js_symptom_id = None, js_normalized_name = None\<rparr>,
          \<lparr>js_symptom_name = Some [0x5931, 0x7720], js_specificity = Some False,
            js_symptom_id = None, js_normalized_name = None\<rparr>]\<rparr>]"

definition demo_agent :: COTCAgent where
  "demo_agent = COTCAgent_init (Inr demo_db)"



section \<open>Lifestyle factors\<close>

lemma fold_lifestyle_map:
  "map_of (fold (lifestyle_step u) tbl lf) f =
     (if \<exists>keywords. (f, keywords) \<in> set tbl \<and> (\<exists>k \<in> set keywords. py_in k u)
      then Some u else map_of lf f)"
proof (induction tbl arbitrary: lf)
  case Nil
  show ?case by simp
next
  case (Cons e tbl)
  obtain factor kws where e: "e = (factor, kws)" by (cases e)
  show ?case
    unfolding e fold_simps Cons.IH
    by (auto simp add: lifestyle_step_def update_conv')
qed

lemma fold_lifestyle_same:
  "\<forall>(factor, keywords) \<in> set tbl. \<not> (\<exists>k \<in> set keywords. py_in k u) \<Longrightarrow>
     fold (lifestyle_step u) tbl lf = lf"
  by (induction tbl arbitrary: lf) (auto simp add: lifestyle_step_def)

lemma analyze_user_response_snd:
  "snd (analyze_user_response self u p) =
     p\<lparr>lifestyle_factors := fold (lifestyle_step u) lifestyle_keywords (lifestyle_factors p)\<rparr>"
  by (simp add: analyze_user_response_def lifestyle_step_def Let_def)

lemma process_user_response_profile:
  "snd (snd (process_user_response self u p)) =
     p\<lparr>lifestyle_factors := fold (lifestyle_step u) lifestyle_keywords (lifestyle_factors p),
       confirmed_symptoms := confirmed_symptoms p @ fst (analyze_user_response self u p)\<rparr>"
proof -
  obtain a b where ab: "analyze_user_response self u p = (a, b)"
    by (cases "analyze_user_response self u p")
  have b: "b = p\<lparr>lifestyle_factors :=
                    fold (lifestyle_step u) lifestyle_keywords (lifestyle_factors p)\<rparr>"
    using analyze_user_response_snd[of self u p] ab by simp
  show ?thesis
    unfolding process_user_response_def ab
    by (simp add: Let_def b split: list.splits prod.splits)
qed

text \<open>
  C10. After \<open>process_user_response\<close> on any agent, utterance and profile, every lifestyle
  family with a keyword in the utterance holds the whole raw utterance (whatever it held
  before, and whether or not a symptom was confirmed); every other key keeps its value;
  and an utterance with no keyword of any family leaves \<open>lifestyle_factors\<close> as it was.
\<close>

theorem lifestyle_factors_updated:
  "map_of (lifestyle_factors (snd (snd (process_user_response self u p)))) f =
     (if mentions_factor f u then Some u else map_of (lifestyle_factors p) f)
   \<and> ((\<forall>g. \<not> mentions_factor g u) \<longrightarrow>
        lifestyle_factors (snd (snd (process_user_response self u p))) = lifestyle_factors p)"
proof -
  have "(\<forall>g. \<not> mentions_factor g u) \<longrightarrow>
          fold (lifestyle_step u) lifestyle_keywords (lifestyle_factors p) = lifestyle_factors p"
    by (auto simp add: mentions_factor_def intro!: fold_lifestyle_same)
  then show ?thesis
    by (simp add: process_user_response_profile fold_lifestyle_map mentions_factor_def)
qed

theorem lifestyle_factors_updated_witness:
  "mentions_factor [0x538B, 0x529B] [0x5DE5, 0x4F5C]
   \<and> map_of (lifestyle_factors (snd (snd (process_user_response (COTCAgent_init (Inr []))
         [0x5DE5, 0x4F5C] demo_patient)))) [0x538B, 0x529B] = Some [0x5DE5, 0x4F5C]
   \<and> (\<forall>g. \<not> mentions_factor g [0x4E0D])
   \<and> lifestyle_factors (snd (snd (process_user_response (COTCAgent_init (Inr []))
         [0x4E0D] demo_patient))) = lifestyle_factors demo_patient"
proof -
  have a: "mentions_factor [0x538B, 0x529B] [0x5DE5, 0x4F5C]"
    by (simp add: mentions_factor_def lifestyle_keywords_def)
  have b: "\<forall>g. \<not> mentions_factor g [0x4E0D]"
    by (auto simp add: mentions_factor_def lifestyle_keywords_def)
  show ?thesis
    using a b
      lifestyle_factors_updated [of "COTCAgent_init (Inr [])" "[0x5DE5, 0x4F5C]" demo_patient "[0x538B, 0x529B]"]
      lifestyle_factors_updated [of "COTCAgent_init (Inr [])" "[0x4E0D]" demo_patient "[]"]
    by simp
qed

section \<open>The decision of a turn\<close>













text \<open>
  C6 fails on the code. \<open>extract_and_confirm_symptoms\<close> tests each keyword's symptom
  against the profile as it was before the turn, so an utterance with two keywords of one
  symptom (U+5934 U+75BC and U+5934 U+75DB) on an empty profile yields two entries named
  U+5934 U+75DB.
\<close>

theorem duplicate_confirmed_symptom:
  "map symptom_name (confirmed_symptoms (snd (snd (process_user_query demo_agent
       [0x5934, 0x75BC, 0x5934, 0x75DB] demo_patient))))
     = [[0x5934, 0x75DB], [0x5934, 0x75DB]]"
  by code_simp




end
